theory Spec2Isabelle
  imports Main
begin

section \<open>Data model\<close>

text \<open>
  The landing page is a list of blocks fetched from the CMS.  A block is a JavaScript
  object discriminated by its \<^verbatim>\<open>blockType\<close> string; the renderers read a heading, a
  rich-text payload or a form reference from it.  Rich text is an opaque document handed
  to an external renderer.
\<close>

datatype richtext = RichTextDoc string

text \<open>
  Modelled from the spec: the generated type declarations \<^verbatim>\<open>Page\<close> and \<^verbatim>\<open>Form\<close>
  of \<^verbatim>\<open>@/payload-types\<close> are not among the sources.  The records below carry the
  properties the components read; an optional or nullable property is an \<open>option\<close>
  (\<open>None\<close> is a property that is absent, \<^verbatim>\<open>undefined\<close> or \<^verbatim>\<open>null\<close>).
\<close>

record FormField =
  field_blockType :: string
  name :: "string option"
  label :: "string option"
  required :: "bool option"

record Form =
  form_id :: int
  title :: string
  form_fields :: "FormField list option"
  submitButtonLabel :: "string option"
  confirmationMessage :: "richtext option"

text \<open>
  A form relationship is either populated (the form object) or not (the bare id of the
  form); the property may also be missing.
\<close>

datatype form_ref = Undefined | Null | FormId int | FormObject Form

record Block =
  block_id :: "string option"
  blockType :: string
  heading :: "string option"
  content :: "richtext option"
  form :: form_ref

record Page =
  slug :: string
  layout :: "Block list option"

text \<open>JavaScript's \<^verbatim>\<open>typeof\<close> and truthiness on the values a form reference takes.\<close>

fun typeof :: "form_ref \<Rightarrow> string" where
  "typeof Undefined = ''undefined''"
| "typeof Null = ''object''"
| "typeof (FormId n) = ''number''"
| "typeof (FormObject f) = ''object''"

fun truthy :: "form_ref \<Rightarrow> bool" where
  "truthy Undefined = False"
| "truthy Null = False"
| "truthy (FormId n) = (n \<noteq> 0)"
| "truthy (FormObject f) = True"

section \<open>Block dispatcher (page.tsx)\<close>

text \<open>
  \<^verbatim>\<open>renderBlock\<close> returns a React element naming the component, the block passed as its
  prop and the key, or \<^verbatim>\<open>null\<close>.
\<close>

datatype component = HeroBlock | ContentBlock | NewsletterBlock_component

datatype element = Element (el_component: component) (el_block: Block) (el_key: "string option")

definition renderBlock :: "Block \<Rightarrow> element option" where
  "renderBlock block =
     (if blockType block = ''hero'' then Some (Element HeroBlock block (block_id block))
      else if blockType block = ''content'' then Some (Element ContentBlock block (block_id block))
      else if blockType block = ''newsletter-form''
        then Some (Element NewsletterBlock_component block (block_id block))
      else None)"

text \<open>
  \<^verbatim>\<open>HomePage\<close>, given the documents the CMS query returned: the first document is the
  page; without one the placeholder is rendered, otherwise the page division holding
  \<^verbatim>\<open>page.layout?.map((block) => renderBlock(block))\<close>.
\<close>

datatype home_view = PageNotFound | PageDiv "element option list option"

definition HomePage :: "Page list \<Rightarrow> home_view" where
  "HomePage docs =
     (case docs of
        [] \<Rightarrow> PageNotFound
      | page # rest \<Rightarrow> PageDiv (map_option (map renderBlock) (layout page)))"

text \<open>React mounts nothing for a \<^verbatim>\<open>null\<close> child: the elements that reach the screen.\<close>

definition mounted :: "element option list \<Rightarrow> element list" where
  "mounted outs = List.map_filter (\<lambda>out. out) outs"

definition recognized :: "Block \<Rightarrow> bool" where
  "recognized block =
     (blockType block = ''hero'' \<or> blockType block = ''content''
      \<or> blockType block = ''newsletter-form'')"

section \<open>JavaScript objects and form data\<close>

text \<open>
  An object with string keys is modelled by its own properties in creation order, keys
  distinct.  Defining a property that exists overwrites the value and keeps the place.
\<close>

type_synonym js_object = "(string \<times> string) list"

fun set_property :: "string \<Rightarrow> string \<Rightarrow> js_object \<Rightarrow> js_object" where
  "set_property k v [] = [(k, v)]"
| "set_property k v ((k', v') # ps) =
     (if k' = k then (k, v) # ps else (k', v') # set_property k v ps)"

text \<open>\<^verbatim>\<open>Object.fromEntries\<close>: the entries are defined one after the other.\<close>

definition Object_fromEntries :: "(string \<times> string) list \<Rightarrow> js_object" where
  "Object_fromEntries es = foldl (\<lambda>obj (k, v). set_property k v obj) [] es"

text \<open>
  Property enumeration order: keys that are array indices (the canonical decimal numeral
  of an integer below \<open>2^32 - 1\<close>) come first, in ascending numeric order, then every other
  key in creation order.
\<close>

definition is_digit :: "char \<Rightarrow> bool" where
  "is_digit c = (48 \<le> (of_char c :: nat) \<and> (of_char c :: nat) \<le> 57)"

definition digits_value :: "string \<Rightarrow> nat" where
  "digits_value s = foldl (\<lambda>n c. 10 * n + ((of_char c :: nat) - 48)) 0 s"

definition is_array_index :: "string \<Rightarrow> bool" where
  "is_array_index s =
     (s \<noteq> [] \<and> list_all is_digit s \<and> (s = ''0'' \<or> hd s \<noteq> CHR ''0'')
      \<and> digits_value s < 4294967295)"

definition Object_entries :: "js_object \<Rightarrow> (string \<times> string) list" where
  "Object_entries obj =
     sort_key (\<lambda>(k, v). digits_value k) (filter (\<lambda>(k, v). is_array_index k) obj)
     @ filter (\<lambda>(k, v). \<not> is_array_index k) obj"

text \<open>
  The browser's form: each mounted input with its \<^verbatim>\<open>name\<close> attribute and its current
  value, in tree order.  \<^verbatim>\<open>new FormData(form)\<close> lists the entries of the controls whose
  name is not empty.  \<^verbatim>\<open>form.reset()\<close> gives every control its default value, which is
  the empty string for an input rendered without a \<^verbatim>\<open>value\<close> attribute; but a control
  named \<^verbatim>\<open>reset\<close> is a named property of the form element that shadows the method, and
  the call then throws a \<^verbatim>\<open>TypeError\<close>.
\<close>

datatype thrown = Error string | TypeError string

type_synonym form_controls = "(string \<times> string) list"

definition FormData_entries :: "form_controls \<Rightarrow> (string \<times> string) list" where
  "FormData_entries cs = filter (\<lambda>(n, v). n \<noteq> []) cs"

definition form_reset :: "form_controls \<Rightarrow> thrown + form_controls" where
  "form_reset cs =
     (if ''reset'' \<in> set (map fst cs) then Inl (TypeError ''reset is not a function'')
      else Inr (map (\<lambda>(n, v). (n, [])) cs))"

section \<open>Newsletter block: rendering\<close>

record FormState =
  loading :: bool
  error :: "string option"
  success :: bool

definition initialFormState :: FormState where
  "initialFormState = \<lparr>loading = False, error = None, success = False\<rparr>"

record input_el =
  input_type :: string
  input_name :: string
  input_required :: bool
  input_placeholder :: string

datatype field_row =
  FieldRow (row_key: string) (label_htmlFor: string) (label_text: "string option")
    (row_input: input_el)

text \<open>
  The callback of \<^verbatim>\<open>block.form.fields?.map\<close>: \<^verbatim>\<open>null\<close> for a field without a
  \<^verbatim>\<open>name\<close> property, otherwise the labelled input.
\<close>

definition render_field :: "FormField \<Rightarrow> field_row option" where
  "render_field field =
     (case name field of
        None \<Rightarrow> None
      | Some n \<Rightarrow>
          Some (FieldRow n n (label field)
            \<lparr>input_type = (if field_blockType field = ''email'' then ''email'' else ''text''),
             input_name = n,
             input_required = (case required field of Some True \<Rightarrow> True | _ \<Rightarrow> False),
             input_placeholder = (case label field of None \<Rightarrow> [] | Some l \<Rightarrow> l)\<rparr>))"

datatype status_el = ConfirmationMessage "richtext option" | SubmitButton string

record form_el =
  field_rows :: "field_row option list"
  error_p :: "string option"
  status :: status_el

text \<open>
  The outer division with its only child: nothing, or the inner division holding the
  heading and the form.
\<close>

datatype newsletter_view = NewsletterDiv "(string option \<times> form_el) option"

definition form_title :: "form_ref \<Rightarrow> string option" where
  "form_title r = (case r of FormObject f \<Rightarrow> Some (title f) | _ \<Rightarrow> None)"

definition render_form :: "Form \<Rightarrow> FormState \<Rightarrow> form_el" where
  "render_form f formState =
     \<lparr>field_rows = (case form_fields f of None \<Rightarrow> [] | Some fs \<Rightarrow> map render_field fs),
      error_p = (case error formState of
                   None \<Rightarrow> None
                 | Some msg \<Rightarrow> if msg = [] then None else Some msg),
      status = (if success formState then ConfirmationMessage (confirmationMessage f)
                else SubmitButton (case submitButtonLabel f of
                                     None \<Rightarrow> ''Submit''
                                   | Some l \<Rightarrow> if l = [] then ''Submit'' else l))\<rparr>"

definition NewsletterBlock :: "Block \<Rightarrow> FormState \<Rightarrow> newsletter_view" where
  "NewsletterBlock block formState =
     (if typeof (form block) = ''object'' \<and> form_title (form block) = Some ''newsletter-form-1''
      then (case form block of
              FormObject f \<Rightarrow> NewsletterDiv (Some (heading block, render_form f formState))
            | _ \<Rightarrow> NewsletterDiv None)
      else NewsletterDiv None)"

text \<open>The inputs React mounts for a view, in tree order, and the form they make up
  once the user has typed the given values into them.\<close>

definition mounted_inputs :: "newsletter_view \<Rightarrow> input_el list" where
  "mounted_inputs view =
     (case view of
        NewsletterDiv None \<Rightarrow> []
      | NewsletterDiv (Some (h, fe)) \<Rightarrow>
          map row_input (List.map_filter (\<lambda>r. r) (field_rows fe)))"

definition controls_of :: "input_el list \<Rightarrow> string list \<Rightarrow> form_controls" where
  "controls_of inputs vals = zip (map input_name inputs) vals"

section \<open>Newsletter block: submission\<close>

datatype json = JNumber int | JString string | JArray "json list" | JObject "(string \<times> json) list"

text \<open>A call of \<^verbatim>\<open>fetch\<close>; the body is the value given to \<^verbatim>\<open>JSON.stringify\<close>.\<close>

record request =
  url :: string
  http_method :: string
  body :: json
  headers :: "(string \<times> string) list"

text \<open>What the awaited \<^verbatim>\<open>fetch\<close> does: it resolves with a response or rejects.\<close>

record response =
  ok :: bool
  status_code :: nat

datatype fetch_outcome = Resolves response | Rejects thrown

datatype console_entry = Console_log js_object | Console_error thrown

text \<open>
  A pending \<^verbatim>\<open>setTimeout\<close>: the delay in milliseconds and the callback, which in this
  component is always \<^verbatim>\<open>() => setFormState(s)\<close> and is represented by \<open>s\<close>.
\<close>

datatype timer = Timer (delay: nat) (callback: FormState)

text \<open>
  The component instance and what it acts on: the React state, the controls of the
  mounted form (the event's target), whether the submit event's default action was
  prevented, the console, the requests sent and the timers pending.
\<close>

record World =
  formState :: FormState
  controls :: form_controls
  defaultPrevented :: bool
  console :: "console_entry list"
  network :: "request list"
  timers :: "timer list"

text \<open>
  The argument of \<^verbatim>\<open>fetch\<close>, given \<^verbatim>\<open>block.form.id\<close> and
  \<^verbatim>\<open>Object.entries(data)\<close>.
\<close>

definition submission_request :: "int \<Rightarrow> (string \<times> string) list \<Rightarrow> request" where
  "submission_request fid entries =
     \<lparr>url = ''/api/form-submissions'',
      http_method = ''POST'',
      body = JObject
        [(''form'', JNumber fid),
         (''submissionData'',
            JArray (map (\<lambda>(field, val). JObject [(''field'', JString field), (''value'', JString val)])
                      entries))],
      headers = [(''Content-Type'', ''application/json'')]\<rparr>"

text \<open>
  \<^verbatim>\<open>handleSubmit\<close> up to its \<^verbatim>\<open>await\<close>: the new world, and whether the handler is
  now suspended on a fetch (\<open>False\<close>: it has returned).
\<close>

definition handleSubmit_begin :: "Block \<Rightarrow> World \<Rightarrow> World \<times> bool" where
  "handleSubmit_begin block w =
     (let w1 = w\<lparr>defaultPrevented := True\<rparr> in
      if \<not> truthy (form block) \<or> typeof (form block) \<noteq> ''object'' then (w1, False)
      else case form block of
        FormObject f \<Rightarrow>
          (let w2 = w1\<lparr>formState := \<lparr>loading = True, error = None, success = False\<rparr>\<rparr>;
               data = Object_fromEntries (FormData_entries (controls w2));
               w3 = w2\<lparr>console := console w2 @ [Console_log data]\<rparr>;
               w4 = w3\<lparr>network := network w3
                      @ [submission_request (form_id f) (Object_entries data)]\<rparr>
           in (w4, True))
      | _ \<Rightarrow> (w1, False))"

text \<open>The \<^verbatim>\<open>catch\<close> block.\<close>

definition handleSubmit_catch :: "thrown \<Rightarrow> World \<Rightarrow> World" where
  "handleSubmit_catch err w =
     (let w1 = w\<lparr>console := console w @ [Console_error err]\<rparr>
      in w1\<lparr>formState := \<lparr>loading = False, error = Some ''Failed to submit form'', success = False\<rparr>\<rparr>)"

text \<open>
  \<^verbatim>\<open>handleSubmit\<close> from the point where the awaited fetch settles.  The statements after
  the fetch are inside the \<^verbatim>\<open>try\<close>, so a throwing \<^verbatim>\<open>reset()\<close> ends in the
  \<^verbatim>\<open>catch\<close> as well, after the state was set to Success and before the timer is set.
\<close>

definition handleSubmit_resume :: "fetch_outcome \<Rightarrow> World \<Rightarrow> World" where
  "handleSubmit_resume outcome w =
     (case outcome of
        Rejects err \<Rightarrow> handleSubmit_catch err w
      | Resolves resp \<Rightarrow>
          if \<not> ok resp then handleSubmit_catch (Error ''Failed to submit form'') w
          else
            (let w1 = w\<lparr>formState := \<lparr>loading = False, error = None, success = True\<rparr>\<rparr>
             in case form_reset (controls w1) of
                  Inl err \<Rightarrow> handleSubmit_catch err w1
                | Inr cs \<Rightarrow>
                    (let w2 = w1\<lparr>controls := cs\<rparr>
                     in w2\<lparr>timers := timers w2
                          @ [Timer 5000 \<lparr>loading = False, error = None, success = False\<rparr>]\<rparr>)))"

definition handleSubmit :: "Block \<Rightarrow> fetch_outcome \<Rightarrow> World \<Rightarrow> World" where
  "handleSubmit block outcome w =
     (case handleSubmit_begin block w of
        (w', False) \<Rightarrow> w'
      | (w', True) \<Rightarrow> handleSubmit_resume outcome w')"

text \<open>A timer fires: its callback runs.  The event loop fires the oldest pending timer.\<close>

definition run_timer :: "timer \<Rightarrow> World \<Rightarrow> World" where
  "run_timer t w = w\<lparr>formState := callback t\<rparr>"

definition fire_timer :: "World \<Rightarrow> World" where
  "fire_timer w = (case timers w of [] \<Rightarrow> w | t # ts \<Rightarrow> run_timer t (w\<lparr>timers := ts\<rparr>))"

text \<open>The object \<^verbatim>\<open>data\<close> that a submit builds from the form of a world.\<close>

definition submitted_data :: "World \<Rightarrow> js_object" where
  "submitted_data w = Object_fromEntries (FormData_entries (controls w))"

text \<open>The scenario of the specification: one e-mail field, form 42.\<close>

definition demo_form :: Form where
  "demo_form =
     \<lparr>form_id = 42, title = ''newsletter-form-1'',
      form_fields = Some [\<lparr>field_blockType = ''email'', name = Some ''email'',
                           label = Some ''Email'', required = Some True\<rparr>],
      submitButtonLabel = Some ''Join'',
      confirmationMessage = Some (RichTextDoc ''Thanks'')\<rparr>"

definition demo_block :: Block where
  "demo_block =
     \<lparr>block_id = Some ''b1'', blockType = ''newsletter-form'', heading = Some ''Subscribe'',
      content = None, form = FormObject demo_form\<rparr>"

definition demo_world :: World where
  "demo_world =
     \<lparr>formState = initialFormState,
      controls = [(''email'', ''a@b.com'')],
      defaultPrevented = False, console = [], network = [], timers = []\<rparr>"

text \<open>Further inputs: a page with an unknown block, an unpopulated form reference, a
  form with a message field (no name) and no confirmation message, and a form whose
  controls repeat a name, have an empty name and have an array-index name.\<close>

definition demo_hero :: Block where
  "demo_hero =
     \<lparr>block_id = Some ''h1'', blockType = ''hero'', heading = Some ''Welcome'',
      content = None, form = Undefined\<rparr>"

definition demo_unknown :: Block where
  "demo_unknown =
     \<lparr>block_id = Some ''u1'', blockType = ''carousel'', heading = None,
      content = None, form = Undefined\<rparr>"

definition demo_page :: Page where
  "demo_page = \<lparr>slug = ''landing-page'', layout = Some [demo_hero, demo_unknown, demo_block]\<rparr>"

definition demo_unpopulated :: Block where
  "demo_unpopulated = demo_block\<lparr>form := FormId 42\<rparr>"

definition demo_message_form :: Form where
  "demo_message_form =
     \<lparr>form_id = 7, title = ''newsletter-form-1'',
      form_fields = Some [\<lparr>field_blockType = ''message'', name = None,
                           label = None, required = None\<rparr>,
                         \<lparr>field_blockType = ''text'', name = Some ''city'',
                           label = None, required = None\<rparr>],
      submitButtonLabel = None,
      confirmationMessage = None\<rparr>"

definition demo_message_block :: Block where
  "demo_message_block = demo_block\<lparr>form := FormObject demo_message_form\<rparr>"

definition demo_city_world :: World where
  "demo_city_world = demo_world\<lparr>controls := [(''city'', ''Oslo'')]\<rparr>"

definition demo_repeat_world :: World where
  "demo_repeat_world =
     demo_world\<lparr>controls := [(''email'', ''old@b.com''), ([], ''x''), (''7'', ''seven''),
                               (''email'', ''a@b.com'')]\<rparr>"

text \<open>A form with a field named \<^verbatim>\<open>reset\<close>, and its controls once filled in.\<close>

definition demo_reset_form :: Form where
  "demo_reset_form =
     \<lparr>form_id = 9, title = ''newsletter-form-1'',
      form_fields = Some [\<lparr>field_blockType = ''text'', name = Some ''reset'',
                           label = Some ''Reset code'', required = None\<rparr>,
                         \<lparr>field_blockType = ''email'', name = Some ''email'',
                           label = Some ''Email'', required = Some True\<rparr>],
      submitButtonLabel = None,
      confirmationMessage = Some (RichTextDoc ''Thanks'')\<rparr>"

definition demo_reset_block :: Block where
  "demo_reset_block = demo_block\<lparr>form := FormObject demo_reset_form\<rparr>"

definition demo_reset_world :: World where
  "demo_reset_world = demo_world\<lparr>controls := [(''reset'', ''x''), (''email'', ''a@b.com'')]\<rparr>"

section \<open>Properties of objects and form data\<close>

lemma set_property_keys:
  "map fst (set_property k v obj) =
     (if k \<in> set (map fst obj) then map fst obj else map fst obj @ [k])"
  by (induction k v obj rule: set_property.induct) auto

lemma set_property_distinct:
  "distinct (map fst obj) \<Longrightarrow> distinct (map fst (set_property k v obj))"
  by (simp only: set_property_keys) simp

lemma set_property_map_of: "map_of (set_property k v obj) = (map_of obj)(k \<mapsto> v)"
  by (induction obj) auto

lemma fold_set_property_distinct:
  "distinct (map fst obj) \<Longrightarrow> distinct (map fst (foldl (\<lambda>obj (k, v). set_property k v obj) obj es))"
  by (induction es arbitrary: obj) (auto simp: set_property_distinct)

lemma fold_set_property_map_of:
  "map_of (foldl (\<lambda>obj (k, v). set_property k v obj) obj es) = map_of obj ++ map_of (rev es)"
  by (induction es arbitrary: obj) (auto simp: set_property_map_of)

lemma fromEntries_distinct: "distinct (map fst (Object_fromEntries es))"
  unfolding Object_fromEntries_def by (rule fold_set_property_distinct) simp

lemma fromEntries_map_of: "map_of (Object_fromEntries es) = map_of (rev es)"
  unfolding Object_fromEntries_def by (simp add: fold_set_property_map_of)

lemma entries_set: "set (Object_entries obj) = set obj"
  by (auto simp: Object_entries_def)

lemma entries_distinct:
  assumes "distinct (map fst obj)"
  shows "distinct (map fst (Object_entries obj))"
proof -
  from assms have d: "distinct obj" and i: "inj_on fst (set obj)"
    by (simp_all add: distinct_map)
  have "distinct (Object_entries obj)"
    using d by (auto simp: Object_entries_def)
  moreover have "inj_on fst (set (Object_entries obj))"
    using i by (simp only: entries_set)
  ultimately show ?thesis by (simp add: distinct_map)
qed

lemma entries_map_of:
  "distinct (map fst obj) \<Longrightarrow> map_of (Object_entries obj) = map_of obj"
  by (simp add: map_of_inject_set entries_distinct entries_set)

lemma entries_no_index:
  assumes "\<forall>k \<in> fst ` set obj. \<not> is_array_index k"
  shows "Object_entries obj = obj"
proof -
  have "filter (\<lambda>(k, v). is_array_index k) obj = []"
    using assms by (auto simp: filter_empty_conv)
  moreover have "filter (\<lambda>(k, v). \<not> is_array_index k) obj = obj"
    using assms by (auto simp: filter_id_conv)
  ultimately show ?thesis by (simp add: Object_entries_def)
qed

lemma fromEntries_snoc:
  "Object_fromEntries (es @ [(k, v)]) = set_property k v (Object_fromEntries es)"
  by (simp add: Object_fromEntries_def)

lemma fromEntries_keys:
  "map fst (Object_fromEntries es) = rev (remdups (rev (map fst es)))"
proof (induction es rule: rev_induct)
  case Nil
  then show ?case by (simp add: Object_fromEntries_def)
next
  case (snoc e es)
  obtain k v where e: "e = (k, v)" by (cases e)
  have "set (map fst (Object_fromEntries es)) = set (map fst es)"
    by (simp only: snoc.IH) simp
  then show ?case
    using snoc.IH by (simp add: e fromEntries_snoc set_property_keys)
qed

lemma FormData_entries_keys:
  "set (map fst (FormData_entries cs)) = {n. n \<noteq> [] \<and> n \<in> fst ` set cs}"
  by (auto simp: FormData_entries_def image_iff)

section \<open>Properties of the submission handler\<close>

lemma handleSubmit_begin_resolved:
  assumes "form block = FormObject f"
  shows "handleSubmit_begin block w =
           (w\<lparr>defaultPrevented := True,
              formState := \<lparr>loading = True, error = None, success = False\<rparr>,
              console := console w @ [Console_log (submitted_data w)],
              network := network w
                @ [submission_request (form_id f) (Object_entries (submitted_data w))]\<rparr>, True)"
  using assms by (simp add: handleSubmit_begin_def Let_def submitted_data_def)

lemma handleSubmit_begin_unresolved:
  assumes "\<forall>f. form block \<noteq> FormObject f"
  shows "handleSubmit_begin block w = (w\<lparr>defaultPrevented := True\<rparr>, False)"
  using assms by (cases "form block") (simp_all add: handleSubmit_begin_def Let_def)

lemma handleSubmit_resume_ok:
  assumes "ok resp" and "''reset'' \<notin> set (map fst (controls w))"
  shows "handleSubmit_resume (Resolves resp) w =
           w\<lparr>formState := \<lparr>loading = False, error = None, success = True\<rparr>,
             controls := map (\<lambda>(n, v). (n, [])) (controls w),
             timers := timers w @ [Timer 5000 \<lparr>loading = False, error = None, success = False\<rparr>]\<rparr>"
  using assms by (simp add: handleSubmit_resume_def form_reset_def Let_def)

lemma handleSubmit_resume_ok_shadowed:
  assumes "ok resp" and "''reset'' \<in> set (map fst (controls w))"
  shows "handleSubmit_resume (Resolves resp) w =
           w\<lparr>console := console w @ [Console_error (TypeError ''reset is not a function'')],
             formState := \<lparr>loading = False, error = Some ''Failed to submit form'', success = False\<rparr>\<rparr>"
  using assms
  by (simp add: handleSubmit_resume_def handleSubmit_catch_def form_reset_def Let_def)

lemma handleSubmit_resume_not_ok:
  assumes "\<not> ok resp"
  shows "handleSubmit_resume (Resolves resp) w =
           w\<lparr>console := console w @ [Console_error (Error ''Failed to submit form'')],
             formState := \<lparr>loading = False, error = Some ''Failed to submit form'', success = False\<rparr>\<rparr>"
  using assms by (simp add: handleSubmit_resume_def handleSubmit_catch_def Let_def)

lemma handleSubmit_resume_rejects:
  "handleSubmit_resume (Rejects err) w =
           w\<lparr>console := console w @ [Console_error err],
             formState := \<lparr>loading = False, error = Some ''Failed to submit form'', success = False\<rparr>\<rparr>"
  by (simp add: handleSubmit_resume_def handleSubmit_catch_def Let_def)

lemma handleSubmit_resolved:
  assumes "form block = FormObject f"
  shows "handleSubmit block outcome w =
           handleSubmit_resume outcome (fst (handleSubmit_begin block w))"
  by (simp add: handleSubmit_def handleSubmit_begin_resolved [OF assms])

lemma network_handleSubmit_resume: "network (handleSubmit_resume outcome w) = network w"
  by (cases outcome)
     (simp_all add: handleSubmit_resume_def handleSubmit_catch_def form_reset_def Let_def)

lemma network_handleSubmit:
  assumes "form block = FormObject f"
  shows "network (handleSubmit block outcome w) =
           network w @ [submission_request (form_id f) (Object_entries (submitted_data w))]"
  by (simp add: handleSubmit_def handleSubmit_begin_resolved [OF assms]
        network_handleSubmit_resume)

lemma submitted_entries_props:
  fixes w :: World
  defines "es \<equiv> FormData_entries (controls w)"
  defines "sent \<equiv> Object_entries (submitted_data w)"
  shows "distinct (map fst sent)"
    and "set (map fst sent) = {n. n \<noteq> [] \<and> n \<in> fst ` set (controls w)}"
    and "map_of sent = map_of (rev es)"
    and "(\<forall>k \<in> set (map fst sent). \<not> is_array_index k) \<longrightarrow>
           map fst sent = rev (remdups (rev (map fst es)))"
proof -
  have d: "distinct (map fst (submitted_data w))"
    by (simp add: submitted_data_def fromEntries_distinct)
  show "distinct (map fst sent)"
    unfolding sent_def using d by (rule entries_distinct)
  have "set (map fst sent) = set (map fst (submitted_data w))"
    by (simp add: sent_def entries_set)
  also have "\<dots> = set (map fst es)"
    by (simp only: submitted_data_def fromEntries_keys es_def) simp
  also have "\<dots> = {n. n \<noteq> [] \<and> n \<in> fst ` set (controls w)}"
    unfolding es_def by (rule FormData_entries_keys)
  finally show "set (map fst sent) = {n. n \<noteq> [] \<and> n \<in> fst ` set (controls w)}" .
  show "map_of sent = map_of (rev es)"
    by (simp add: sent_def entries_map_of [OF d])
       (simp add: submitted_data_def fromEntries_map_of es_def)
  show "(\<forall>k \<in> set (map fst sent). \<not> is_array_index k) \<longrightarrow>
           map fst sent = rev (remdups (rev (map fst es)))"
  proof
    assume a: "\<forall>k \<in> set (map fst sent). \<not> is_array_index k"
    then have "\<forall>k \<in> fst ` set (submitted_data w). \<not> is_array_index k"
      by (simp add: sent_def entries_set)
    then have "sent = submitted_data w"
      unfolding sent_def by (rule entries_no_index)
    then show "map fst sent = rev (remdups (rev (map fst es)))"
      by (simp add: submitted_data_def fromEntries_keys es_def)
  qed
qed

lemma default_values_props:
  "map fst (map (\<lambda>(n, v). (n, [])) cs) = map fst cs"
  "\<forall>v \<in> snd ` set (map (\<lambda>(n, v). (n, [])) cs). v = []"
  by (auto simp: split_beta)

lemma controls_handleSubmit_begin: "controls (fst (handleSubmit_begin block w)) = controls w"
  by (cases "form block") (simp_all add: handleSubmit_begin_def Let_def)

text \<open>How a submit on a populated form reference can end.\<close>

lemma handleSubmit_final_cases:
  assumes "form block = FormObject f"
  shows "formState (handleSubmit block outcome w) = \<lparr>loading = False, error = None, success = True\<rparr>
       \<or> (formState (handleSubmit block outcome w)
            = \<lparr>loading = False, error = Some ''Failed to submit form'', success = False\<rparr>
          \<and> controls (handleSubmit block outcome w) = controls w
          \<and> timers (handleSubmit block outcome w) = timers w)"
proof -
  note b = handleSubmit_begin_resolved [OF assms, of w]
  note r = handleSubmit_resolved [OF assms, of _ w]
  show ?thesis
  proof (cases outcome)
    case (Rejects err)
    then show ?thesis by (simp add: r b handleSubmit_resume_rejects)
  next
    case (Resolves resp)
    show ?thesis
    proof (cases "ok resp")
      case False
      then show ?thesis by (simp add: Resolves r b handleSubmit_resume_not_ok)
    next
      case True
      note k = this
      show ?thesis
      proof (cases "''reset'' \<in> set (map fst (controls (fst (handleSubmit_begin block w))))")
        case True
        from handleSubmit_resume_ok_shadowed [OF k True] show ?thesis
          by (simp add: Resolves r b)
      next
        case False
        from handleSubmit_resume_ok [OF k False] show ?thesis
          by (simp add: Resolves r b)
      qed
    qed
  qed
qed

text \<open>A submit on a populated form reference ends in Success only one way.\<close>

lemma handleSubmit_success_cases:
  assumes "form block = FormObject f"
    and "success (formState (handleSubmit block outcome w))"
  obtains resp where "outcome = Resolves resp" and "ok resp"
    and "''reset'' \<notin> set (map fst (controls w))"
proof (cases outcome)
  case (Rejects err)
  with assms have False
    by (simp add: handleSubmit_resolved [OF assms(1)] handleSubmit_resume_rejects)
  then show ?thesis ..
next
  case (Resolves resp)
  have ok: "ok resp"
  proof (rule ccontr)
    assume "\<not> ok resp"
    with assms Resolves show False
      by (simp add: handleSubmit_resolved [OF assms(1)] handleSubmit_resume_not_ok)
  qed
  have "''reset'' \<notin> set (map fst (controls w))"
  proof
    assume "''reset'' \<in> set (map fst (controls w))"
    then have "''reset'' \<in> set (map fst (controls (fst (handleSubmit_begin block w))))"
      by (simp only: controls_handleSubmit_begin)
    with assms Resolves ok show False
      by (simp add: handleSubmit_resolved [OF assms(1)] handleSubmit_resume_ok_shadowed)
  qed
  with Resolves ok show ?thesis by (rule that)
qed

section \<open>Properties of the rendering\<close>

lemma NewsletterBlock_gated:
  assumes "form block = FormObject f" "title f = ''newsletter-form-1''"
  shows "NewsletterBlock block st = NewsletterDiv (Some (heading block, render_form f st))"
  using assms by (simp add: NewsletterBlock_def form_title_def)

lemma NewsletterBlock_not_gated:
  assumes "\<not> (\<exists>f. form block = FormObject f \<and> title f = ''newsletter-form-1'')"
  shows "NewsletterBlock block st = NewsletterDiv None"
  using assms by (cases "form block") (simp_all add: NewsletterBlock_def form_title_def)

lemma mounted_field_names:
  "map input_name (map row_input (List.map_filter (\<lambda>r. r) (map render_field fs)))
     = List.map_filter name fs"
  by (induction fs) (auto simp: List.map_filter_simps render_field_def split: option.splits)

lemma mounted_inputs_gated:
  assumes "form block = FormObject f" "title f = ''newsletter-form-1''" "form_fields f = Some fs"
  shows "map input_name (mounted_inputs (NewsletterBlock block st)) = List.map_filter name fs"
proof -
  have "mounted_inputs (NewsletterBlock block st)
          = map row_input (List.map_filter (\<lambda>r. r) (map render_field fs))"
    by (simp add: NewsletterBlock_gated [OF assms(1,2)] mounted_inputs_def render_form_def
          assms(3))
  then show ?thesis by (simp only: mounted_field_names)
qed

lemma mounted_map_renderBlock:
  "map el_block (mounted (map renderBlock blocks)) = filter recognized blocks"
  by (induction blocks) (auto simp: mounted_def List.map_filter_simps renderBlock_def recognized_def)

text \<open>
  An ok response on a form without a control named \<^verbatim>\<open>reset\<close>: Loading at the
  \<^verbatim>\<open>await\<close>, then Success, the controls emptied, the confirmation message in the
  place of the submit button.
\<close>

lemma submit_ok_unshadowed:
  assumes "form block = FormObject f" and "ok resp"
    and "''reset'' \<notin> set (map fst (controls w))"
  shows "formState (fst (handleSubmit_begin block w)) = \<lparr>loading = True, error = None, success = False\<rparr>
       \<and> snd (handleSubmit_begin block w)
       \<and> handleSubmit block (Resolves resp) w
           = handleSubmit_resume (Resolves resp) (fst (handleSubmit_begin block w))
       \<and> formState (handleSubmit block (Resolves resp) w)
           = \<lparr>loading = False, error = None, success = True\<rparr>
       \<and> map fst (controls (handleSubmit block (Resolves resp) w)) = map fst (controls w)
       \<and> (\<forall>v \<in> snd ` set (controls (handleSubmit block (Resolves resp) w)). v = [])
       \<and> (title f = ''newsletter-form-1'' \<longrightarrow>
            (\<exists>fe. NewsletterBlock block (formState (handleSubmit block (Resolves resp) w))
                     = NewsletterDiv (Some (heading block, fe))
                 \<and> status fe = ConfirmationMessage (confirmationMessage f)
                 \<and> (\<forall>l. status fe \<noteq> SubmitButton l)
                 \<and> error_p fe = None))"
proof -
  let ?w' = "handleSubmit block (Resolves resp) w"
  have b: "handleSubmit_begin block w =
           (w\<lparr>defaultPrevented := True,
              formState := \<lparr>loading = True, error = None, success = False\<rparr>,
              console := console w @ [Console_log (submitted_data w)],
              network := network w
                @ [submission_request (form_id f) (Object_entries (submitted_data w))]\<rparr>, True)"
    using assms(1) by (rule handleSubmit_begin_resolved)
  have r: "?w' = handleSubmit_resume (Resolves resp) (fst (handleSubmit_begin block w))"
    using assms(1) by (rule handleSubmit_resolved)
  have "''reset'' \<notin> set (map fst (controls (fst (handleSubmit_begin block w))))"
    using assms(3) by (simp add: controls_handleSubmit_begin)
  note res = handleSubmit_resume_ok [OF assms(2) this]
  have s: "formState ?w' = \<lparr>loading = False, error = None, success = True\<rparr>"
    by (simp add: r res)
  have c: "controls ?w' = map (\<lambda>(n, v). (n, [])) (controls w)"
    by (simp add: r res controls_handleSubmit_begin)
  have v: "title f = ''newsletter-form-1'' \<longrightarrow>
            (\<exists>fe. NewsletterBlock block (formState ?w') = NewsletterDiv (Some (heading block, fe))
                 \<and> status fe = ConfirmationMessage (confirmationMessage f)
                 \<and> (\<forall>l. status fe \<noteq> SubmitButton l)
                 \<and> error_p fe = None)"
  proof
    assume t: "title f = ''newsletter-form-1''"
    have "NewsletterBlock block (formState ?w')
            = NewsletterDiv (Some (heading block, render_form f (formState ?w')))"
      using assms(1) t by (rule NewsletterBlock_gated)
    moreover have "status (render_form f (formState ?w')) = ConfirmationMessage (confirmationMessage f)"
      by (simp add: s render_form_def)
    moreover have "error_p (render_form f (formState ?w')) = None"
      by (simp add: s render_form_def)
    ultimately show "\<exists>fe. NewsletterBlock block (formState ?w') = NewsletterDiv (Some (heading block, fe))
                 \<and> status fe = ConfirmationMessage (confirmationMessage f)
                 \<and> (\<forall>l. status fe \<noteq> SubmitButton l)
                 \<and> error_p fe = None"
      by simp
  qed
  have 1: "formState (fst (handleSubmit_begin block w)) = \<lparr>loading = True, error = None, success = False\<rparr>"
    by (simp add: b)
  have 2: "snd (handleSubmit_begin block w)"
    by (simp add: b)
  have 5: "map fst (controls ?w') = map fst (controls w)"
    by (simp only: c default_values_props)
  have 6: "\<forall>v \<in> snd ` set (controls ?w'). v = []"
    unfolding c by (rule default_values_props(2))
  from 1 2 r s 5 6 v show ?thesis by blast
qed

section \<open>Properties stated by the specification\<close>

text \<open>
  Claim C1.  A submit on a block whose form reference is the form object sends exactly
  one request, whatever the fetch then does: a POST to \<^verbatim>\<open>/api/form-submissions\<close>
  with the JSON content type, whose body pairs the form's id with the list of
  field/value entries.  The entries have distinct field names, the names are those of the
  controls with a non-empty name, each value is the last value entered under the name
  (looking a name up in the reversed entry list finds its last occurrence), and unless a
  name is an array index the entries stand in the order in which the names first occur.
\<close>

theorem submit_sends_one_post:
  assumes "form block = FormObject f"
  shows "\<exists>sent.
           network (handleSubmit block outcome w) =
             network w @
               [\<lparr>url = ''/api/form-submissions'', http_method = ''POST'',
                 body = JObject
                   [(''form'', JNumber (form_id f)),
                    (''submissionData'',
                       JArray (map (\<lambda>(k, v). JObject [(''field'', JString k), (''value'', JString v)])
                                 sent))],
                 headers = [(''Content-Type'', ''application/json'')]\<rparr>]
         \<and> distinct (map fst sent)
         \<and> set (map fst sent) = {n. n \<noteq> [] \<and> n \<in> fst ` set (controls w)}
         \<and> map_of sent = map_of (rev (FormData_entries (controls w)))
         \<and> ((\<forall>k \<in> set (map fst sent). \<not> is_array_index k) \<longrightarrow>
               map fst sent = rev (remdups (rev (map fst (FormData_entries (controls w))))))"
proof (intro exI conjI)
  show "network (handleSubmit block outcome w) =
             network w @
               [\<lparr>url = ''/api/form-submissions'', http_method = ''POST'',
                 body = JObject
                   [(''form'', JNumber (form_id f)),
                    (''submissionData'',
                       JArray (map (\<lambda>(k, v). JObject [(''field'', JString k), (''value'', JString v)])
                                 (Object_entries (submitted_data w))))],
                 headers = [(''Content-Type'', ''application/json'')]\<rparr>]"
    by (simp add: network_handleSubmit [OF assms] submission_request_def)
qed (rule submitted_entries_props)+

theorem submit_sends_one_post_witness:
  "form demo_block = FormObject demo_form
   \<and> network (handleSubmit demo_block (Resolves \<lparr>ok = True, status_code = 200\<rparr>) demo_repeat_world) =
       [\<lparr>url = ''/api/form-submissions'', http_method = ''POST'',
         body = JObject
           [(''form'', JNumber 42),
            (''submissionData'',
               JArray [JObject [(''field'', JString ''7''), (''value'', JString ''seven'')],
                       JObject [(''field'', JString ''email''), (''value'', JString ''a@b.com'')]])],
         headers = [(''Content-Type'', ''application/json'')]\<rparr>]"
proof -
  have h: "form demo_block = FormObject demo_form"
    by (simp add: demo_block_def)
  have n: "network demo_repeat_world = []"
    by (simp add: demo_repeat_world_def demo_world_def)
  have e: "Object_entries (submitted_data demo_repeat_world)
             = [(''7'', ''seven''), (''email'', ''a@b.com'')]"
    by (simp add: submitted_data_def demo_repeat_world_def demo_world_def FormData_entries_def
          Object_fromEntries_def Object_entries_def is_array_index_def is_digit_def
          digits_value_def)
  from submit_sends_one_post [OF h, of "Resolves \<lparr>ok = True, status_code = 200\<rparr>" demo_repeat_world]
  show ?thesis
    using h n e
    by (simp add: network_handleSubmit [OF h] submission_request_def demo_form_def)
qed

text \<open>
  Claim C2.  After an ok response the state should be Success, the form reset, the
  submit button hidden and the confirmation shown.  The code misses this for a form with
  a field named \<^verbatim>\<open>reset\<close>: the controls are the inputs the block renders for the form,
  the request is sent and answered ok, but \<^verbatim>\<open>reset()\<close> throws inside the \<^verbatim>\<open>try\<close>
  and the \<^verbatim>\<open>catch\<close> reports a failed submission.  The final state is the Error state, the
  values are still in the controls, no timer is pending, and the block shows the error
  line and the submit button.
\<close>

theorem submit_ok_reset_shadowed:
  "form demo_reset_block = FormObject demo_reset_form
   \<and> controls demo_reset_world
       = controls_of (mounted_inputs (NewsletterBlock demo_reset_block (formState demo_reset_world)))
           [''x'', ''a@b.com'']
   \<and> ok \<lparr>ok = True, status_code = 200\<rparr>
   \<and> network (handleSubmit demo_reset_block (Resolves \<lparr>ok = True, status_code = 200\<rparr>) demo_reset_world)
       = [submission_request 9 [(''reset'', ''x''), (''email'', ''a@b.com'')]]
   \<and> formState (handleSubmit demo_reset_block (Resolves \<lparr>ok = True, status_code = 200\<rparr>) demo_reset_world)
       = \<lparr>loading = False, error = Some ''Failed to submit form'', success = False\<rparr>
   \<and> controls (handleSubmit demo_reset_block (Resolves \<lparr>ok = True, status_code = 200\<rparr>) demo_reset_world)
       = [(''reset'', ''x''), (''email'', ''a@b.com'')]
   \<and> timers (handleSubmit demo_reset_block (Resolves \<lparr>ok = True, status_code = 200\<rparr>) demo_reset_world)
       = []
   \<and> console (handleSubmit demo_reset_block (Resolves \<lparr>ok = True, status_code = 200\<rparr>) demo_reset_world)
       = [Console_log [(''reset'', ''x''), (''email'', ''a@b.com'')],
          Console_error (TypeError ''reset is not a function'')]
   \<and> (\<exists>fe. NewsletterBlock demo_reset_block
              (formState (handleSubmit demo_reset_block (Resolves \<lparr>ok = True, status_code = 200\<rparr>)
                 demo_reset_world))
            = NewsletterDiv (Some (Some ''Subscribe'', fe))
          \<and> error_p fe = Some ''Failed to submit form''
          \<and> status fe = SubmitButton ''Submit'')"
proof -
  let ?w' = "handleSubmit demo_reset_block (Resolves \<lparr>ok = True, status_code = 200\<rparr>) demo_reset_world"
  have h: "form demo_reset_block = FormObject demo_reset_form"
    by (simp add: demo_reset_block_def)
  have t: "title demo_reset_form = ''newsletter-form-1''"
    by (simp add: demo_reset_form_def)
  have c0: "controls demo_reset_world = [(''reset'', ''x''), (''email'', ''a@b.com'')]"
    by (simp add: demo_reset_world_def)
  have w0: "console demo_reset_world = []" "network demo_reset_world = []"
    "timers demo_reset_world = []" "formState demo_reset_world = initialFormState"
    by (simp_all add: demo_reset_world_def demo_world_def)
  have c: "controls demo_reset_world
       = controls_of (mounted_inputs (NewsletterBlock demo_reset_block (formState demo_reset_world)))
           [''x'', ''a@b.com'']"
    by (simp add: NewsletterBlock_gated [OF h t] mounted_inputs_def render_form_def
          demo_reset_form_def render_field_def List.map_filter_simps controls_of_def c0)
  have d: "submitted_data demo_reset_world = [(''reset'', ''x''), (''email'', ''a@b.com'')]"
    by (simp add: submitted_data_def c0 FormData_entries_def Object_fromEntries_def)
  have e: "Object_entries [(''reset'', ''x''), (''email'', ''a@b.com'')]
             = [(''reset'', ''x''), (''email'', ''a@b.com'')]"
    by (simp add: Object_entries_def is_array_index_def is_digit_def)
  have w': "?w' = demo_reset_world
       \<lparr>defaultPrevented := True,
         network := [submission_request 9 [(''reset'', ''x''), (''email'', ''a@b.com'')]],
         console := [Console_log [(''reset'', ''x''), (''email'', ''a@b.com'')],
                     Console_error (TypeError ''reset is not a function'')],
         formState := \<lparr>loading = False, error = Some ''Failed to submit form'', success = False\<rparr>\<rparr>"
    by (simp add: handleSubmit_resolved [OF h] handleSubmit_begin_resolved [OF h]
          handleSubmit_resume_ok_shadowed c0 d e w0 demo_reset_form_def)
  have 1: "network ?w' = [submission_request 9 [(''reset'', ''x''), (''email'', ''a@b.com'')]]"
    and 2: "formState ?w' = \<lparr>loading = False, error = Some ''Failed to submit form'', success = False\<rparr>"
    and 3: "controls ?w' = [(''reset'', ''x''), (''email'', ''a@b.com'')]"
    and 4: "timers ?w' = []"
    and 5: "console ?w' = [Console_log [(''reset'', ''x''), (''email'', ''a@b.com'')],
                           Console_error (TypeError ''reset is not a function'')]"
    by (simp_all add: w' c0 w0)
  have hd: "heading demo_reset_block = Some ''Subscribe''"
    by (simp add: demo_reset_block_def demo_block_def)
  have v: "\<exists>fe. NewsletterBlock demo_reset_block (formState ?w')
            = NewsletterDiv (Some (Some ''Subscribe'', fe))
          \<and> error_p fe = Some ''Failed to submit form''
          \<and> status fe = SubmitButton ''Submit''"
    by (simp add: 2 hd NewsletterBlock_gated [OF h t] render_form_def demo_reset_form_def)
  have k: "ok \<lparr>ok = True, status_code = 200\<rparr>"
    by simp
  from h c k 1 2 3 4 5 v show ?thesis by blast
qed

text \<open>
  Claim C3.  A submit on a populated form reference that fails: a response that is not
  ok and a rejected fetch both end in the state with loading false, success false and the
  error \<^verbatim>\<open>Failed to submit form\<close>.  A rejection is logged on the console after the form
  data.  A response that is not ok behaves exactly as a fetch rejecting with
  \<^verbatim>\<open>Error('Failed to submit form')\<close>, and the final worlds of any two failures
  differ in the console alone: neither the status code nor the error thrown is looked at.
\<close>

theorem failures_share_error_state:
  assumes "form block = FormObject f" and "\<not> ok resp"
  shows "formState (handleSubmit block (Resolves resp) w)
           = \<lparr>loading = False, error = Some ''Failed to submit form'', success = False\<rparr>
       \<and> formState (handleSubmit block (Rejects err) w)
           = \<lparr>loading = False, error = Some ''Failed to submit form'', success = False\<rparr>
       \<and> console (handleSubmit block (Rejects err) w)
           = console w @ [Console_log (submitted_data w), Console_error err]
       \<and> handleSubmit block (Resolves resp) w
           = handleSubmit block (Rejects (Error ''Failed to submit form'')) w
       \<and> (handleSubmit block (Resolves resp) w)\<lparr>console := c\<rparr>
           = (handleSubmit block (Rejects err) w)\<lparr>console := c\<rparr>"
proof -
  note b = handleSubmit_begin_resolved [OF assms(1), of w]
  note r = handleSubmit_resolved [OF assms(1), of _ w]
  have 1: "formState (handleSubmit block (Resolves resp) w)
           = \<lparr>loading = False, error = Some ''Failed to submit form'', success = False\<rparr>"
    by (simp add: r handleSubmit_resume_not_ok [OF assms(2)])
  have 2: "formState (handleSubmit block (Rejects err) w)
           = \<lparr>loading = False, error = Some ''Failed to submit form'', success = False\<rparr>"
    by (simp add: r handleSubmit_resume_rejects)
  have 3: "console (handleSubmit block (Rejects err) w)
           = console w @ [Console_log (submitted_data w), Console_error err]"
    by (simp add: r b handleSubmit_resume_rejects)
  have 4: "handleSubmit block (Resolves resp) w
           = handleSubmit block (Rejects (Error ''Failed to submit form'')) w"
    by (simp add: r handleSubmit_resume_not_ok [OF assms(2)] handleSubmit_resume_rejects)
  have 5: "(handleSubmit block (Resolves resp) w)\<lparr>console := c\<rparr>
           = (handleSubmit block (Rejects err) w)\<lparr>console := c\<rparr>"
    by (simp add: r handleSubmit_resume_not_ok [OF assms(2)] handleSubmit_resume_rejects)
  from 1 2 3 4 5 show ?thesis by blast
qed

theorem failures_share_error_state_witness:
  "form demo_block = FormObject demo_form \<and> \<not> ok \<lparr>ok = False, status_code = 500\<rparr>
   \<and> formState (handleSubmit demo_block (Resolves \<lparr>ok = False, status_code = 500\<rparr>) demo_world)
       = \<lparr>loading = False, error = Some ''Failed to submit form'', success = False\<rparr>
   \<and> formState (handleSubmit demo_block (Rejects (TypeError ''Failed to fetch'')) demo_world)
       = \<lparr>loading = False, error = Some ''Failed to submit form'', success = False\<rparr>
   \<and> console (handleSubmit demo_block (Rejects (TypeError ''Failed to fetch'')) demo_world)
       = [Console_log [(''email'', ''a@b.com'')], Console_error (TypeError ''Failed to fetch'')]"
proof -
  have h: "form demo_block = FormObject demo_form"
    by (simp add: demo_block_def)
  have k: "\<not> ok \<lparr>ok = False, status_code = 500\<rparr>"
    by simp
  have e: "submitted_data demo_world = [(''email'', ''a@b.com'')]"
    by (simp add: demo_world_def submitted_data_def FormData_entries_def Object_fromEntries_def)
  have n: "console demo_world = []"
    by (simp add: demo_world_def)
  note t = failures_share_error_state
         [OF h k, where err = "TypeError ''Failed to fetch''" and w = demo_world and c = "[]"]
  from t have a: "formState (handleSubmit demo_block (Resolves \<lparr>ok = False, status_code = 500\<rparr>) demo_world)
       = \<lparr>loading = False, error = Some ''Failed to submit form'', success = False\<rparr>"
    by blast
  from t have b: "formState (handleSubmit demo_block (Rejects (TypeError ''Failed to fetch'')) demo_world)
       = \<lparr>loading = False, error = Some ''Failed to submit form'', success = False\<rparr>"
    by blast
  from t have "console (handleSubmit demo_block (Rejects (TypeError ''Failed to fetch'')) demo_world)
       = console demo_world
           @ [Console_log (submitted_data demo_world), Console_error (TypeError ''Failed to fetch'')]"
    by blast
  then have c: "console (handleSubmit demo_block (Rejects (TypeError ''Failed to fetch'')) demo_world)
       = [Console_log [(''email'', ''a@b.com'')], Console_error (TypeError ''Failed to fetch'')]"
    by (simp add: e n)
  show ?thesis
    using h k a b c by simp
qed

text \<open>
  Claim C4.  The outer division of a newsletter block has a child exactly when the form
  reference is a form object whose title is \<^verbatim>\<open>newsletter-form-1\<close>.  Then the child is
  the heading with the form: one row per field entry that has a name and, unless the
  state is Success, the submit button.  In every other case (missing, null, a bare id,
  another title) the division is empty and no input is mounted.
\<close>

theorem newsletter_form_gate:
  "((\<exists>inner. NewsletterBlock block st = NewsletterDiv (Some inner))
      \<longleftrightarrow> (\<exists>f. form block = FormObject f \<and> title f = ''newsletter-form-1''))
   \<and> (\<forall>f. form block = FormObject f \<and> title f = ''newsletter-form-1'' \<longrightarrow>
         NewsletterBlock block st = NewsletterDiv (Some (heading block, render_form f st))
         \<and> field_rows (render_form f st)
              = (case form_fields f of None \<Rightarrow> [] | Some fs \<Rightarrow> map render_field fs)
         \<and> (\<not> success st \<longrightarrow> (\<exists>l. status (render_form f st) = SubmitButton l)))
   \<and> (\<not> (\<exists>f. form block = FormObject f \<and> title f = ''newsletter-form-1'') \<longrightarrow>
         NewsletterBlock block st = NewsletterDiv None
         \<and> mounted_inputs (NewsletterBlock block st) = [])"
proof -
  let ?gate = "\<exists>f. form block = FormObject f \<and> title f = ''newsletter-form-1''"
  have yes: "\<And>f. form block = FormObject f \<Longrightarrow> title f = ''newsletter-form-1'' \<Longrightarrow>
               NewsletterBlock block st = NewsletterDiv (Some (heading block, render_form f st))"
    by (rule NewsletterBlock_gated)
  have no: "\<not> ?gate \<Longrightarrow> NewsletterBlock block st = NewsletterDiv None"
    by (rule NewsletterBlock_not_gated)
  have 1: "(\<exists>inner. NewsletterBlock block st = NewsletterDiv (Some inner)) \<longleftrightarrow> ?gate"
  proof (cases ?gate)
    case True
    then show ?thesis using yes by auto
  next
    case False
    then show ?thesis using no by simp
  qed
  have 2: "\<forall>f. form block = FormObject f \<and> title f = ''newsletter-form-1'' \<longrightarrow>
         NewsletterBlock block st = NewsletterDiv (Some (heading block, render_form f st))
         \<and> field_rows (render_form f st)
              = (case form_fields f of None \<Rightarrow> [] | Some fs \<Rightarrow> map render_field fs)
         \<and> (\<not> success st \<longrightarrow> (\<exists>l. status (render_form f st) = SubmitButton l))"
    using yes by (simp add: render_form_def)
  have 3: "\<not> ?gate \<longrightarrow>
         NewsletterBlock block st = NewsletterDiv None
         \<and> mounted_inputs (NewsletterBlock block st) = []"
    using no by (simp add: mounted_inputs_def)
  from 1 2 3 show ?thesis by blast
qed

theorem newsletter_form_gate_witness:
  "NewsletterBlock demo_block initialFormState
     = NewsletterDiv (Some (Some ''Subscribe'',
         \<lparr>field_rows = [Some (FieldRow ''email'' ''email'' (Some ''Email'')
                           \<lparr>input_type = ''email'', input_name = ''email'',
                            input_required = True, input_placeholder = ''Email''\<rparr>)],
          error_p = None,
          status = SubmitButton ''Join''\<rparr>))
   \<and> NewsletterBlock demo_unpopulated initialFormState = NewsletterDiv None
   \<and> NewsletterBlock (demo_block\<lparr>form := FormObject (demo_form\<lparr>title := ''newsletter-form-2''\<rparr>)\<rparr>)
        initialFormState = NewsletterDiv None
   \<and> NewsletterBlock (demo_block\<lparr>form := Null\<rparr>) initialFormState = NewsletterDiv None"
  using newsletter_form_gate [of demo_block initialFormState]
        newsletter_form_gate [of demo_unpopulated initialFormState]
        newsletter_form_gate [of "demo_block\<lparr>form := FormObject (demo_form\<lparr>title := ''newsletter-form-2''\<rparr>)\<rparr>" initialFormState]
        newsletter_form_gate [of "demo_block\<lparr>form := Null\<rparr>" initialFormState]
  by (simp add: demo_block_def demo_unpopulated_def demo_form_def initialFormState_def
        render_form_def render_field_def)

text \<open>
  Claim C5.  A submit on a populated form reference that ends in the Success state has
  scheduled exactly one more timer; its delay is 5000 milliseconds and its callback, run
  in any world, sets the state to the initial one (loading false, error null, success
  false) and changes nothing else.  With no other timer pending, the next timer to fire is
  this one, and firing takes no event.
\<close>

theorem success_resets_after_delay:
  assumes "form block = FormObject f"
    and "success (formState (handleSubmit block outcome w))"
  shows "formState (handleSubmit block outcome w)
           = \<lparr>loading = False, error = None, success = True\<rparr>
       \<and> (\<exists>t. timers (handleSubmit block outcome w) = timers w @ [t]
              \<and> delay t = 5000
              \<and> (\<forall>w'. run_timer t w' = w'\<lparr>formState := initialFormState\<rparr>)
              \<and> formState (run_timer t (handleSubmit block outcome w))
                   = \<lparr>loading = False, error = None, success = False\<rparr>)
       \<and> (timers w = [] \<longrightarrow>
             fire_timer (handleSubmit block outcome w)
               = (handleSubmit block outcome w)
                   \<lparr>formState := initialFormState, timers := []\<rparr>)"
proof -
  let ?w' = "handleSubmit block outcome w"
  let ?t = "Timer 5000 \<lparr>loading = False, error = None, success = False\<rparr>"
  from assms obtain resp where o: "outcome = Resolves resp" and k: "ok resp"
    and ns: "''reset'' \<notin> set (map fst (controls w))"
    by (rule handleSubmit_success_cases)
  from ns have "''reset'' \<notin> set (map fst (controls (fst (handleSubmit_begin block w))))"
    by (simp add: controls_handleSubmit_begin)
  note res = handleSubmit_resume_ok [OF k this]
  note b = handleSubmit_begin_resolved [OF assms(1), of w]
  note r = handleSubmit_resolved [OF assms(1), of _ w]
  have 1: "formState ?w' = \<lparr>loading = False, error = None, success = True\<rparr>"
    by (simp add: o r res)
  have t: "timers ?w' = timers w @ [?t]"
    by (simp add: o r res) (simp add: b)
  have "delay ?t = 5000"
    by simp
  moreover have "\<forall>w'. run_timer ?t w' = w'\<lparr>formState := initialFormState\<rparr>"
    by (simp add: run_timer_def initialFormState_def)
  moreover have "formState (run_timer ?t ?w') = \<lparr>loading = False, error = None, success = False\<rparr>"
    by (simp add: run_timer_def)
  ultimately have 2: "\<exists>t. timers ?w' = timers w @ [t]
              \<and> delay t = 5000
              \<and> (\<forall>w'. run_timer t w' = w'\<lparr>formState := initialFormState\<rparr>)
              \<and> formState (run_timer t ?w') = \<lparr>loading = False, error = None, success = False\<rparr>"
    using t by blast
  have 3: "timers w = [] \<longrightarrow> fire_timer ?w' = ?w'\<lparr>formState := initialFormState, timers := []\<rparr>"
    by (simp add: fire_timer_def t run_timer_def initialFormState_def)
  from 1 2 3 show ?thesis by blast
qed

theorem success_resets_after_delay_witness:
  "form demo_block = FormObject demo_form
   \<and> success (formState (handleSubmit demo_block (Resolves \<lparr>ok = True, status_code = 200\<rparr>) demo_world))
   \<and> timers demo_world = []
   \<and> timers (handleSubmit demo_block (Resolves \<lparr>ok = True, status_code = 200\<rparr>) demo_world)
       = [Timer 5000 \<lparr>loading = False, error = None, success = False\<rparr>]
   \<and> formState (handleSubmit demo_block (Resolves \<lparr>ok = True, status_code = 200\<rparr>) demo_world)
       = \<lparr>loading = False, error = None, success = True\<rparr>
   \<and> formState (fire_timer (handleSubmit demo_block (Resolves \<lparr>ok = True, status_code = 200\<rparr>) demo_world))
       = \<lparr>loading = False, error = None, success = False\<rparr>
   \<and> timers (fire_timer (handleSubmit demo_block (Resolves \<lparr>ok = True, status_code = 200\<rparr>) demo_world))
       = []"
proof -
  have h: "form demo_block = FormObject demo_form"
    by (simp add: demo_block_def)
  have k: "success (formState (handleSubmit demo_block (Resolves \<lparr>ok = True, status_code = 200\<rparr>) demo_world))"
    by (simp add: handleSubmit_def handleSubmit_begin_def handleSubmit_resume_def Let_def
          demo_block_def demo_world_def form_reset_def)
  have e: "timers demo_world = []"
    by (simp add: demo_world_def)
  from success_resets_after_delay [OF h k]
  show ?thesis
    by (simp add: handleSubmit_def handleSubmit_begin_def handleSubmit_resume_def Let_def
          demo_block_def demo_world_def initialFormState_def form_reset_def
          fire_timer_def run_timer_def)
qed

text \<open>
  Claim C6.  A submit on a block whose form reference is not a form object returns at the
  guard: the handler never reaches the fetch, and the world is the one before but for
  the prevented default action of the event; requests, state, console, timers and
  controls are unchanged.
\<close>

theorem unresolved_form_is_noop:
  assumes "\<forall>f. form block \<noteq> FormObject f"
  shows "handleSubmit block outcome w = w\<lparr>defaultPrevented := True\<rparr>
       \<and> \<not> snd (handleSubmit_begin block w)
       \<and> network (handleSubmit block outcome w) = network w
       \<and> formState (handleSubmit block outcome w) = formState w
       \<and> console (handleSubmit block outcome w) = console w
       \<and> timers (handleSubmit block outcome w) = timers w
       \<and> controls (handleSubmit block outcome w) = controls w"
  by (simp add: handleSubmit_def handleSubmit_begin_unresolved [OF assms])

theorem unresolved_form_is_noop_witness:
  "(\<forall>f. form demo_unpopulated \<noteq> FormObject f)
   \<and> handleSubmit demo_unpopulated (Resolves \<lparr>ok = True, status_code = 200\<rparr>) demo_world
       = demo_world\<lparr>defaultPrevented := True\<rparr>
   \<and> network (handleSubmit demo_unpopulated (Resolves \<lparr>ok = True, status_code = 200\<rparr>) demo_world) = []
   \<and> formState (handleSubmit demo_unpopulated (Resolves \<lparr>ok = True, status_code = 200\<rparr>) demo_world)
       = \<lparr>loading = False, error = None, success = False\<rparr>"
proof -
  have h: "\<forall>f. form demo_unpopulated \<noteq> FormObject f"
    by (simp add: demo_unpopulated_def)
  from unresolved_form_is_noop [OF h, of "Resolves \<lparr>ok = True, status_code = 200\<rparr>" demo_world]
  show ?thesis
    using h by (simp add: demo_world_def initialFormState_def)
qed

text \<open>
  Claim C7.  For a page with a layout the page division holds one output per block, in
  the order of the blocks: the element of the hero, content or newsletter component for
  the three known block types, carrying the block and its id as key, and \<^verbatim>\<open>null\<close> for
  every other block type.  The mounted elements are therefore the recognized blocks, in
  input order.  The dispatcher has no failing branch.
\<close>

theorem dispatcher_one_output_per_block:
  assumes "layout page = Some blocks"
  shows "\<exists>outs. HomePage (page # docs) = PageDiv (Some outs)
           \<and> length outs = length blocks
           \<and> (\<forall>i < length blocks.
                 outs ! i = renderBlock (blocks ! i)
                 \<and> (blockType (blocks ! i) = ''hero'' \<longrightarrow>
                       outs ! i = Some (Element HeroBlock (blocks ! i) (block_id (blocks ! i))))
                 \<and> (blockType (blocks ! i) = ''content'' \<longrightarrow>
                       outs ! i = Some (Element ContentBlock (blocks ! i) (block_id (blocks ! i))))
                 \<and> (blockType (blocks ! i) = ''newsletter-form'' \<longrightarrow>
                       outs ! i = Some (Element NewsletterBlock_component (blocks ! i)
                                          (block_id (blocks ! i))))
                 \<and> (\<not> recognized (blocks ! i) \<longrightarrow> outs ! i = None))
           \<and> map el_block (mounted outs) = filter recognized blocks"
proof (intro exI conjI)
  show "HomePage (page # docs) = PageDiv (Some (map renderBlock blocks))"
    by (simp add: HomePage_def assms)
  show "length (map renderBlock blocks) = length blocks"
    by simp
  show "map el_block (mounted (map renderBlock blocks)) = filter recognized blocks"
    by (rule mounted_map_renderBlock)
  show "\<forall>i < length blocks.
          map renderBlock blocks ! i = renderBlock (blocks ! i)
          \<and> (blockType (blocks ! i) = ''hero'' \<longrightarrow>
                map renderBlock blocks ! i
                  = Some (Element HeroBlock (blocks ! i) (block_id (blocks ! i))))
          \<and> (blockType (blocks ! i) = ''content'' \<longrightarrow>
                map renderBlock blocks ! i
                  = Some (Element ContentBlock (blocks ! i) (block_id (blocks ! i))))
          \<and> (blockType (blocks ! i) = ''newsletter-form'' \<longrightarrow>
                map renderBlock blocks ! i
                  = Some (Element NewsletterBlock_component (blocks ! i) (block_id (blocks ! i))))
          \<and> (\<not> recognized (blocks ! i) \<longrightarrow> map renderBlock blocks ! i = None)"
    by (simp add: renderBlock_def recognized_def)
qed

theorem dispatcher_one_output_per_block_witness:
  "layout demo_page = Some [demo_hero, demo_unknown, demo_block]
   \<and> HomePage [demo_page] =
       PageDiv (Some [Some (Element HeroBlock demo_hero (Some ''h1'')), None,
                      Some (Element NewsletterBlock_component demo_block (Some ''b1''))])
   \<and> filter recognized [demo_hero, demo_unknown, demo_block] = [demo_hero, demo_block]"
proof -
  have h: "layout demo_page = Some [demo_hero, demo_unknown, demo_block]"
    by (simp add: demo_page_def)
  from dispatcher_one_output_per_block [OF h, of "[]"]
  show ?thesis
    using h
    by (simp add: HomePage_def renderBlock_def recognized_def demo_hero_def demo_unknown_def
          demo_block_def)
qed

text \<open>
  Claim C8.  In a displayed newsletter form, a field entry is rendered as \<^verbatim>\<open>null\<close>
  exactly when it has no name, so the mounted inputs are the named field entries, in
  order.  When the controls of the form are these inputs with any values typed in, the
  request of a submit carries only field names of named entries, and no more entries
  than there are named field entries.
\<close>

theorem nameless_fields_excluded:
  assumes "form block = FormObject f" and "title f = ''newsletter-form-1''"
    and "form_fields f = Some fs"
    and "controls w = controls_of (mounted_inputs (NewsletterBlock block (formState w))) vals"
  shows "(\<forall>fld \<in> set fs. name fld = None \<longleftrightarrow> render_field fld = None)
       \<and> map input_name (mounted_inputs (NewsletterBlock block (formState w)))
           = List.map_filter name fs
       \<and> length (mounted_inputs (NewsletterBlock block (formState w)))
           = length (filter (\<lambda>fld. name fld \<noteq> None) fs)
       \<and> (\<exists>sent. network (handleSubmit block outcome w)
                    = network w @ [submission_request (form_id f) sent]
                \<and> set (map fst sent) \<subseteq> {n. \<exists>fld \<in> set fs. name fld = Some n}
                \<and> length sent \<le> length (filter (\<lambda>fld. name fld \<noteq> None) fs))"
proof -
  let ?inputs = "mounted_inputs (NewsletterBlock block (formState w))"
  let ?sent = "Object_entries (submitted_data w)"
  have 1: "\<forall>fld \<in> set fs. name fld = None \<longleftrightarrow> render_field fld = None"
    by (simp add: render_field_def split: option.splits)
  have 2: "map input_name ?inputs = List.map_filter name fs"
    using assms(1-3) by (rule mounted_inputs_gated)
  have l: "length (List.map_filter name fs) = length (filter (\<lambda>fld. name fld \<noteq> None) fs)"
    by (induction fs) (auto simp: List.map_filter_simps split: option.splits)
  have 3: "length ?inputs = length (filter (\<lambda>fld. name fld \<noteq> None) fs)"
    using 2 l by (metis length_map)
  have n: "network (handleSubmit block outcome w)
             = network w @ [submission_request (form_id f) ?sent]"
    using assms(1) by (rule network_handleSubmit)
  have keys: "set (map fst ?sent) = {n. n \<noteq> [] \<and> n \<in> fst ` set (controls w)}"
    by (rule submitted_entries_props)
  have "fst ` set (controls w) \<subseteq> set (map input_name ?inputs)"
    unfolding assms(4) controls_of_def by (auto dest: set_zip_leftD)
  also have "\<dots> = set (List.map_filter name fs)"
    by (simp only: 2)
  also have "\<dots> = {n. \<exists>fld \<in> set fs. name fld = Some n}"
    by (induction fs) (auto simp: List.map_filter_simps split: option.splits)
  finally have sub: "set (map fst ?sent) \<subseteq> {n. \<exists>fld \<in> set fs. name fld = Some n}"
    using keys by blast
  have "length ?sent = length (map fst ?sent)"
    by simp
  also have "\<dots> = card (set (map fst ?sent))"
    using submitted_entries_props(1) [of w] by (simp only: distinct_card)
  also have "\<dots> \<le> card (set (map input_name ?inputs))"
  proof (rule card_mono)
    show "finite (set (map input_name ?inputs))" by simp
    show "set (map fst ?sent) \<subseteq> set (map input_name ?inputs)"
      using keys \<open>fst ` set (controls w) \<subseteq> set (map input_name ?inputs)\<close> by blast
  qed
  also have "\<dots> \<le> length (map input_name ?inputs)"
    by (rule card_length)
  also have "\<dots> = length (filter (\<lambda>fld. name fld \<noteq> None) fs)"
    using 3 by simp
  finally have len: "length ?sent \<le> length (filter (\<lambda>fld. name fld \<noteq> None) fs)" .
  from n sub len have 4: "\<exists>sent. network (handleSubmit block outcome w)
                    = network w @ [submission_request (form_id f) sent]
                \<and> set (map fst sent) \<subseteq> {n. \<exists>fld \<in> set fs. name fld = Some n}
                \<and> length sent \<le> length (filter (\<lambda>fld. name fld \<noteq> None) fs)"
    by blast
  from 1 2 3 4 show ?thesis by blast
qed

theorem nameless_fields_excluded_witness:
  "form demo_message_block = FormObject demo_message_form
   \<and> map name (the (form_fields demo_message_form)) = [None, Some ''city'']
   \<and> controls demo_city_world
       = controls_of (mounted_inputs (NewsletterBlock demo_message_block (formState demo_city_world)))
           [''Oslo'']
   \<and> map input_name (mounted_inputs (NewsletterBlock demo_message_block (formState demo_city_world)))
       = [''city'']
   \<and> network (handleSubmit demo_message_block (Resolves \<lparr>ok = True, status_code = 200\<rparr>) demo_city_world)
       = [submission_request 7 [(''city'', ''Oslo'')]]"
proof -
  have h: "form demo_message_block = FormObject demo_message_form"
    by (simp add: demo_message_block_def)
  have t: "title demo_message_form = ''newsletter-form-1''"
    by (simp add: demo_message_form_def)
  have fs: "form_fields demo_message_form
              = Some [\<lparr>field_blockType = ''message'', name = None, label = None, required = None\<rparr>,
                      \<lparr>field_blockType = ''text'', name = Some ''city'', label = None,
                        required = None\<rparr>]"
    by (simp add: demo_message_form_def)
  have c: "controls demo_city_world
       = controls_of (mounted_inputs (NewsletterBlock demo_message_block (formState demo_city_world)))
           [''Oslo'']"
    by (simp add: NewsletterBlock_gated [OF h t] mounted_inputs_def render_form_def fs
          render_field_def List.map_filter_simps controls_of_def demo_city_world_def)
  have e: "Object_entries (submitted_data demo_city_world) = [(''city'', ''Oslo'')]"
    by (simp add: submitted_data_def demo_city_world_def FormData_entries_def
          Object_fromEntries_def Object_entries_def is_array_index_def is_digit_def)
  have n: "network demo_city_world = []"
    by (simp add: demo_city_world_def demo_world_def)
  from nameless_fields_excluded
         [OF h t fs c, of "Resolves \<lparr>ok = True, status_code = 200\<rparr>"]
  have m: "map input_name (mounted_inputs (NewsletterBlock demo_message_block (formState demo_city_world)))
             = List.map_filter name
                 [\<lparr>field_blockType = ''message'', name = None, label = None, required = None\<rparr>,
                  \<lparr>field_blockType = ''text'', name = Some ''city'', label = None,
                    required = None\<rparr>]"
    by blast
  show ?thesis
    using h c m
    by (simp add: fs List.map_filter_simps network_handleSubmit [OF h] e n demo_message_form_def)
qed

text \<open>
  Claim C9.  A submit that leaves an error in the state leaves every control of the form
  as it was (only the success path resets the form).  A second submit then sends the same
  request again, and the block, where it displays, still offers the submit button.
\<close>

theorem error_keeps_form_values:
  assumes "error (formState (handleSubmit block outcome w)) = Some msg"
  shows "controls (handleSubmit block outcome w) = controls w
       \<and> (\<forall>f. form block = FormObject f \<longrightarrow>
             network (handleSubmit block outcome' (handleSubmit block outcome w))
               = network w @ [submission_request (form_id f) (Object_entries (submitted_data w)),
                              submission_request (form_id f) (Object_entries (submitted_data w))])
       \<and> (\<forall>f. form block = FormObject f \<and> title f = ''newsletter-form-1'' \<longrightarrow>
             (\<exists>fe l. NewsletterBlock block (formState (handleSubmit block outcome w))
                       = NewsletterDiv (Some (heading block, fe))
                   \<and> status fe = SubmitButton l))"
proof -
  let ?w' = "handleSubmit block outcome w"
  have c: "controls ?w' = controls w"
  proof (cases "\<exists>f. form block = FormObject f")
    case False
    then have "\<forall>f. form block \<noteq> FormObject f" by simp
    then show ?thesis
      by (simp add: handleSubmit_def handleSubmit_begin_unresolved)
  next
    case True
    then obtain f where f: "form block = FormObject f" ..
    from handleSubmit_final_cases [OF f, of outcome w] assms show ?thesis
      by auto
  qed
  have d: "submitted_data ?w' = submitted_data w"
    by (simp add: submitted_data_def c)
  have n: "\<forall>f. form block = FormObject f \<longrightarrow>
             network (handleSubmit block outcome' ?w')
               = network w @ [submission_request (form_id f) (Object_entries (submitted_data w)),
                              submission_request (form_id f) (Object_entries (submitted_data w))]"
    by (simp add: network_handleSubmit d)
  have v: "\<forall>f. form block = FormObject f \<and> title f = ''newsletter-form-1'' \<longrightarrow>
             (\<exists>fe l. NewsletterBlock block (formState ?w') = NewsletterDiv (Some (heading block, fe))
                   \<and> status fe = SubmitButton l)"
  proof (intro allI impI, elim conjE)
    fix f
    assume f: "form block = FormObject f" and t: "title f = ''newsletter-form-1''"
    have "\<not> success (formState ?w')"
      using handleSubmit_final_cases [OF f, of outcome w] assms by auto
    then have "\<exists>l. status (render_form f (formState ?w')) = SubmitButton l"
      by (simp add: render_form_def)
    then show "\<exists>fe l. NewsletterBlock block (formState ?w') = NewsletterDiv (Some (heading block, fe))
                   \<and> status fe = SubmitButton l"
      using NewsletterBlock_gated [OF f t, of "formState ?w'"] by blast
  qed
  from c n v show ?thesis by blast
qed

theorem error_keeps_form_values_witness:
  "error (formState (handleSubmit demo_block (Resolves \<lparr>ok = False, status_code = 500\<rparr>) demo_world))
     = Some ''Failed to submit form''
   \<and> controls (handleSubmit demo_block (Resolves \<lparr>ok = False, status_code = 500\<rparr>) demo_world)
       = [(''email'', ''a@b.com'')]
   \<and> network (handleSubmit demo_block (Resolves \<lparr>ok = True, status_code = 200\<rparr>)
                (handleSubmit demo_block (Resolves \<lparr>ok = False, status_code = 500\<rparr>) demo_world))
       = [submission_request 42 [(''email'', ''a@b.com'')],
          submission_request 42 [(''email'', ''a@b.com'')]]"
proof -
  have h: "error (formState (handleSubmit demo_block (Resolves \<lparr>ok = False, status_code = 500\<rparr>) demo_world))
     = Some ''Failed to submit form''"
    by (simp add: handleSubmit_def handleSubmit_begin_def handleSubmit_resume_def
          handleSubmit_catch_def Let_def demo_block_def)
  have f: "form demo_block = FormObject demo_form"
    by (simp add: demo_block_def)
  have e: "Object_entries (submitted_data demo_world) = [(''email'', ''a@b.com'')]"
    by (simp add: submitted_data_def demo_world_def FormData_entries_def
          Object_fromEntries_def Object_entries_def is_array_index_def is_digit_def)
  have c: "controls demo_world = [(''email'', ''a@b.com'')]" and n: "network demo_world = []"
    by (simp_all add: demo_world_def)
  from error_keeps_form_values [OF h, of "Resolves \<lparr>ok = True, status_code = 200\<rparr>"]
  show ?thesis
    using h f by (simp add: e c n demo_form_def)
qed

text \<open>
  Claim C10.  In the Success state the confirmation message is handed to the rich-text
  renderer as it is: for a displayed form without a confirmation message, the renderer
  receives the missing value; no fallback is rendered.
\<close>

theorem confirmation_message_unguarded:
  assumes "form block = FormObject f" and "title f = ''newsletter-form-1''"
    and "confirmationMessage f = None" and "success st"
  shows "\<exists>fe. NewsletterBlock block st = NewsletterDiv (Some (heading block, fe))
            \<and> status fe = ConfirmationMessage None"
proof -
  have "NewsletterBlock block st = NewsletterDiv (Some (heading block, render_form f st))"
    using assms(1,2) by (rule NewsletterBlock_gated)
  moreover have "status (render_form f st) = ConfirmationMessage None"
    using assms(3,4) by (simp add: render_form_def)
  ultimately show ?thesis by blast
qed

theorem confirmation_message_unguarded_witness:
  "form demo_message_block = FormObject demo_message_form
   \<and> title demo_message_form = ''newsletter-form-1''
   \<and> confirmationMessage demo_message_form = None
   \<and> NewsletterBlock demo_message_block \<lparr>loading = False, error = None, success = True\<rparr>
       = NewsletterDiv (Some (Some ''Subscribe'',
           \<lparr>field_rows = [None, Some (FieldRow ''city'' ''city'' None
                             \<lparr>input_type = ''text'', input_name = ''city'',
                              input_required = False, input_placeholder = []\<rparr>)],
            error_p = None,
            status = ConfirmationMessage None\<rparr>))"
proof -
  have h: "form demo_message_block = FormObject demo_message_form"
    by (simp add: demo_message_block_def)
  have t: "title demo_message_form = ''newsletter-form-1''"
    by (simp add: demo_message_form_def)
  have m: "confirmationMessage demo_message_form = None"
    by (simp add: demo_message_form_def)
  have s: "success \<lparr>loading = False, error = None, success = True\<rparr>"
    by simp
  from confirmation_message_unguarded [OF h t m s]
  show ?thesis
    using h t m
    by (simp add: NewsletterBlock_def form_title_def render_form_def render_field_def
          demo_message_block_def demo_block_def demo_message_form_def)
qed

end
